theory Spec2Isabelle
  imports Complex_Main "HOL-Library.Char_ord" "HOL-Library.List_Lexorder"
    "HOL-Library.Product_Lexorder"
begin

section \<open>The dashboard export of moltbook-stats (export_dashboard_data.py)\<close>

text \<open>
  The program loads two CSV tables with pandas and three optional JSON files, runs seven
  aggregators over them and writes one JSON document. This theory embeds the program as
  HOL functions and states its specification's claims about it.

  Conventions of the embedding:
  \<^item> a numeric cell of a table is a \<open>rat option\<close>: \<open>None\<close> is pandas' missing value (NaN),
    \<open>Some q\<close> a finite number. Floating-point rounding is not modelled: sums, means and
    quantiles are exact rationals. A text cell is a \<open>string option\<close>;
  \<^item> a float of the output that the code does not guard is a \<open>rat option\<close> as well, so
    that NaN reaching the writer is a value of the model; a float the code guards
    (\<open>x if pd.notna(x) else 0.0\<close>, \<open>fillna(0)\<close>) is a \<open>rat\<close>;
  \<^item> an exception is a value \<open>Inl e\<close> of the type \<open>error + 'a\<close>;
  \<^item> a Python dict is an association list in insertion order with distinct keys.
\<close>

subsection \<open>Errors and files\<close>

datatype error =
  ReadCsvError                \<comment> \<open>\<open>pd.read_csv\<close> failed on a required table\<close>
  | TypeError_nlargest        \<comment> \<open>\<open>nlargest\<close> on a column whose dtype is not numeric\<close>
  | ValueError_argmax_empty   \<comment> \<open>\<open>idxmax\<close> of an empty series\<close>
  | ValueError_out_of_range_float  \<comment> \<open>\<open>json.dump(..., allow_nan=False)\<close> met NaN\<close>

text \<open>What opening and parsing a file gives: its parsed content, or one of the failures.\<close>

datatype 'a file_read = Absent | Unreadable | Malformed | Content 'a

subsection \<open>Python helpers\<close>

text \<open>\<open>int(x)\<close> of a float truncates towards zero.\<close>

definition py_int :: "rat \<Rightarrow> int" where
  "py_int x = (if 0 \<le> x then \<lfloor>x\<rfloor> else \<lceil>x\<rceil>)"

text \<open>\<open>str(n)\<close> of a non-negative integer: its decimal digits.\<close>

definition digit_char :: "nat \<Rightarrow> char" where
  "digit_char d = ''0123456789'' ! d"

fun str_nat :: "nat \<Rightarrow> string" where
  "str_nat n = (if n < 10 then [digit_char n] else str_nat (n div 10) @ [digit_char (n mod 10)])"

declare str_nat.simps [simp del]

text \<open>
  Building a dict from the members of a JSON object, as \<open>json.load\<close> does: a key that
  comes again keeps its first position and takes the later value.
\<close>

fun dict_set :: "'k \<Rightarrow> 'v \<Rightarrow> ('k \<times> 'v) list \<Rightarrow> ('k \<times> 'v) list" where
  "dict_set k v [] = [(k, v)]"
| "dict_set k v ((k', v') # d) = (if k = k' then (k, v) # d else (k', v') # dict_set k v d)"

definition json_object :: "('k \<times> 'v) list \<Rightarrow> ('k \<times> 'v) list" where
  "json_object members = foldl (\<lambda>d (k, v). dict_set k v d) [] members"

text \<open>\<open>list.sort(key=..., reverse=True)\<close> and \<open>sorted(..., reverse=True)\<close>: descending by the
  key, elements with equal keys in their original order (Python's sort is stable, also
  when reversed).\<close>

definition sort_reverse :: "('a \<Rightarrow> 'k::{linorder, uminus}) \<Rightarrow> 'a list \<Rightarrow> 'a list" where
  "sort_reverse key xs = sort_key (\<lambda>x. - key x) xs"

subsection \<open>pandas helpers\<close>

definition isna :: "'a option \<Rightarrow> bool" where
  "isna c = (c = None)"

definition notna :: "'a option \<Rightarrow> bool" where
  "notna c = (c \<noteq> None)"

text \<open>\<open>fillna(v)\<close> on one cell.\<close>

definition fillna :: "'a \<Rightarrow> 'a option \<Rightarrow> 'a option" where
  "fillna v c = (case c of None \<Rightarrow> Some v | Some x \<Rightarrow> Some x)"

text \<open>The cells of a column that are not missing (\<open>dropna\<close>).\<close>

definition dropna :: "'a option list \<Rightarrow> 'a list" where
  "dropna col = List.map_filter (\<lambda>c. c) col"

text \<open>\<open>Series.count\<close>, \<open>nunique\<close>, \<open>sum\<close>, \<open>mean\<close>, \<open>median\<close>, \<open>quantile\<close>, \<open>min\<close>, \<open>max\<close>: all
  skip missing cells; mean, median, quantile, min and max of no cell at all are NaN.
  The sum is the exact one: the wrap-around of a sum of 64-bit integers that leaves the
  range of the type is not modelled.\<close>

definition count_col :: "'a option list \<Rightarrow> nat" where
  "count_col col = length (dropna col)"

definition nunique :: "'a option list \<Rightarrow> nat" where
  "nunique col = length (remdups (dropna col))"

definition sum_col :: "rat option list \<Rightarrow> rat" where
  "sum_col col = sum_list (dropna col)"

definition mean :: "rat option list \<Rightarrow> rat option" where
  "mean col = (let vs = dropna col in
     if vs = [] then None else Some (sum_list vs / of_nat (length vs)))"

text \<open>Linear interpolation between the two order statistics around position
  \<open>q * (n - 1)\<close>, pandas' default.\<close>

definition quantile :: "rat \<Rightarrow> rat option list \<Rightarrow> rat option" where
  "quantile q col = (let vs = sort (dropna col) in
     if vs = [] then None
     else let pos = q * of_nat (length vs - 1);
              lo = nat \<lfloor>pos\<rfloor>;
              hi = min (lo + 1) (length vs - 1)
          in Some (vs ! lo + (vs ! hi - vs ! lo) * (pos - of_nat lo)))"

text \<open>The middle value of the sorted cells, or the mean of the two middle values.\<close>

definition median :: "rat option list \<Rightarrow> rat option" where
  "median col = (let vs = sort (dropna col); n = length vs in
     if n = 0 then None
     else if odd n then Some (vs ! (n div 2))
     else Some ((vs ! (n div 2 - 1) + vs ! (n div 2)) / 2))"

definition min_col :: "'a::linorder option list \<Rightarrow> 'a option" where
  "min_col col = (case dropna col of [] \<Rightarrow> None | v # vs \<Rightarrow> Some (fold min vs v))"

definition max_col :: "'a::linorder option list \<Rightarrow> 'a option" where
  "max_col col = (case dropna col of [] \<Rightarrow> None | v # vs \<Rightarrow> Some (fold max vs v))"

text \<open>\<open>DataFrame.round(2)\<close> on one number: numpy scales by 100, rounds half to even and
  scales back.\<close>

definition round_half_even :: "rat \<Rightarrow> int" where
  "round_half_even y = (let f = \<lfloor>y\<rfloor>; d = y - of_int f in
     if d < 1 / 2 then f else if 1 / 2 < d then f + 1 else if even f then f else f + 1)"

definition round2 :: "rat \<Rightarrow> rat" where
  "round2 x = of_int (round_half_even (x * 100)) / 100"

text \<open>
  \<open>read_csv\<close> infers a column's dtype from its cells. A table with a header and no row has
  columns of dtype object; a column of numbers, some of them missing, has a numeric dtype.
  The cells of this model's numeric columns are numbers or missing, so such a column is
  numeric exactly when the table read has a row. Selecting rows keeps the dtype.
\<close>

definition numeric_dtype :: "'r list \<Rightarrow> bool" where
  "numeric_dtype table = (table \<noteq> [])"

text \<open>
  \<open>df.sort_values(col, ascending=False)\<close>: the rows whose cell is present come first, by
  descending value, and the rows whose cell is missing come last (\<open>na_position='last'\<close>).

  \<open>df.nlargest(n, col)\<close> raises TypeError when the column's dtype is not numeric, and is
  the first \<open>n\<close> rows of that order otherwise. Among rows of equal value pandas with
  \<open>keep='first'\<close> prefers the earlier row; the model does the same.
\<close>

definition sort_values_desc :: "('r \<Rightarrow> rat option) \<Rightarrow> 'r list \<Rightarrow> 'r list" where
  "sort_values_desc col df =
     sort_reverse (\<lambda>r. case col r of Some v \<Rightarrow> v | None \<Rightarrow> 0) (filter (\<lambda>r. notna (col r)) df)
     @ filter (\<lambda>r. isna (col r)) df"

definition nlargest :: "bool \<Rightarrow> nat \<Rightarrow> ('r \<Rightarrow> rat option) \<Rightarrow> 'r list \<Rightarrow> error + 'r list" where
  "nlargest numeric n col df =
     (if \<not> numeric then Inl TypeError_nlargest else Inr (take n (sort_values_desc col df)))"

text \<open>
  \<open>df.groupby(key)\<close>: one group per key value that occurs, the groups in ascending key
  order, each with its rows in table order; rows whose key is missing are in no group.
\<close>

definition groupby :: "('r \<Rightarrow> 'k::linorder option) \<Rightarrow> 'r list \<Rightarrow> ('k \<times> 'r list) list" where
  "groupby key df =
     map (\<lambda>k. (k, filter (\<lambda>r. key r = Some k) df)) (sort (remdups (dropna (map key df))))"

text \<open>\<open>Series.idxmax\<close>: the label of the first largest value; ValueError on an empty
  series.\<close>

fun idxmax_from :: "'k \<times> rat \<Rightarrow> ('k \<times> rat) list \<Rightarrow> 'k" where
  "idxmax_from best [] = fst best"
| "idxmax_from best (kv # s) = idxmax_from (if snd best < snd kv then kv else best) s"

definition idxmax :: "('k \<times> rat) list \<Rightarrow> error + 'k" where
  "idxmax s = (case s of [] \<Rightarrow> Inl ValueError_argmax_empty | kv # rest \<Rightarrow> Inr (idxmax_from kv rest))"


text \<open>\<open>reindex(labels)\<close> of a grouped result: one row per label, in the order of the
  labels; a label with no group has missing values.\<close>

definition reindex :: "'k list \<Rightarrow> ('k \<times> 'v) list \<Rightarrow> ('k \<times> 'v option) list" where
  "reindex labels grouped = map (\<lambda>l. (l, map_of grouped l)) labels"

subsection \<open>The input tables\<close>

text \<open>
  A creation timestamp: the cell as the CSV has it, and what \<open>pd.to_datetime\<close> and the
  \<open>.dt\<close> accessors give for it (calendar date as year, month, day; hour of the day; name
  of the weekday). Parsing timestamps is pandas' work and is taken as given.
\<close>

record stamp =
  raw :: string
  date :: "nat \<times> nat \<times> nat"
  hour :: nat
  day_name :: string

text \<open>A row of \<open>data/posts_latest.csv\<close>; \<open>post_id\<close> is the column \<open>id\<close>.\<close>

record post =
  post_id :: "string option"
  title :: "string option"
  author_name :: "string option"
  submolt_display_name :: "string option"
  upvotes :: "rat option"
  comment_count :: "rat option"
  created_at :: "stamp option"
  url :: "string option"

text \<open>A row of \<open>data/author_stats.csv\<close>: the author's name in the first column, then the
  statistics.\<close>

record author_row =
  stats_author_name :: "string option"
  total_posts :: "rat option"
  avg_upvotes :: "rat option"
  engagement_rate :: "rat option"
  success_rate :: "rat option"
  consistency_score :: "rat option"
  upvotes_std :: "rat option"
  posts_per_day :: "rat option"

text \<open>A JSON value, for the network statistics the program passes through unread. Python's
  \<open>json.load\<close> accepts the literal \<open>NaN\<close>: that is \<open>JFloat None\<close>.\<close>

datatype json =
  JNull | JBool bool | JInt int | JFloat "rat option" | JString string
  | JArray "json list" | JObject "(string \<times> json) list"

record inputs =
  posts_latest_csv :: "post list file_read"
  author_stats_csv :: "author_row list file_read"
  cross_posters_json :: "(string \<times> string list) list file_read"
  bridge_authors_json :: "(string \<times> rat) list file_read"
  network_stats_json :: "(string \<times> json) list file_read"

text \<open>
  The loaded data. \<open>read_csv\<close> is called without \<open>index_col\<close>, so a table whose header
  names every column gets the default index: the rows are labelled \<open>0, 1, 2, ...\<close> in file
  order and every column of the file, the author's name too, is an ordinary column. The
  index of the posts table is never read; the rows of the author statistics carry their
  label, which selections and \<open>nlargest\<close> keep and \<open>row.name\<close> reads.

  Left out: a file whose header is one field shorter than its rows. pandas takes the
  first column of such a file as the index; the tables of this model have a header that
  names every column.
\<close>

record data =
  posts :: "post list"
  author_stats :: "(nat \<times> author_row) list"
  cross_posters :: "(string \<times> string list) list"
  bridge_authors :: "(string \<times> rat) list"
  network_stats :: "(string \<times> json) list"

subsection \<open>load_all_data\<close>

definition read_csv :: "'r list file_read \<Rightarrow> error + 'r list" where
  "read_csv f = (case f of Content rows \<Rightarrow> Inr rows | _ \<Rightarrow> Inl ReadCsvError)"

text \<open>\<open>try: json.load(f) except: {}\<close>\<close>

definition load_json :: "('k \<times> 'v) list file_read \<Rightarrow> ('k \<times> 'v) list" where
  "load_json f = (case f of Content members \<Rightarrow> json_object members | _ \<Rightarrow> [])"

definition load_all_data :: "inputs \<Rightarrow> error + data" where
  "load_all_data inp =
     (case read_csv (posts_latest_csv inp) of
        Inl e \<Rightarrow> Inl e
      | Inr ps \<Rightarrow>
          (case read_csv (author_stats_csv inp) of
             Inl e \<Rightarrow> Inl e
           | Inr rows \<Rightarrow>
               Inr \<lparr>posts = ps,
                    author_stats = List.enumerate 0 rows,
                    cross_posters = load_json (cross_posters_json inp),
                    bridge_authors = load_json (bridge_authors_json inp),
                    network_stats = load_json (network_stats_json inp)\<rparr>))"


subsection \<open>export_overview_stats\<close>

record overview_stats =
  ov_total_posts :: int
  ov_total_authors :: int
  ov_total_submolts :: int
  ov_total_upvotes :: int
  ov_total_comments :: int
  ov_avg_upvotes_per_post :: "rat option"
  ov_median_upvotes :: "rat option"
  ov_avg_comments_per_post :: "rat option"
  ov_date_range_start :: string
  ov_date_range_end :: string

text \<open>\<open>str\<close> of a text cell, or of the minimum or maximum of a text column: \<open>'nan'\<close> when
  it is missing.\<close>

definition str_cell :: "string option \<Rightarrow> string" where
  "str_cell c = (case c of None \<Rightarrow> ''nan'' | Some s \<Rightarrow> s)"

definition export_overview_stats :: "data \<Rightarrow> overview_stats" where
  "export_overview_stats d = (let df = posts d in
     \<lparr>ov_total_posts = int (length df),
      ov_total_authors = int (nunique (map author_name df)),
      ov_total_submolts = int (nunique (map submolt_display_name df)),
      ov_total_upvotes = py_int (sum_col (map upvotes df)),
      ov_total_comments = py_int (sum_col (map comment_count df)),
      ov_avg_upvotes_per_post = mean (map upvotes df),
      ov_median_upvotes = median (map upvotes df),
      ov_avg_comments_per_post = mean (map comment_count df),
      ov_date_range_start = str_cell (min_col (map (\<lambda>p. map_option raw (created_at p)) df)),
      ov_date_range_end = str_cell (max_col (map (\<lambda>p. map_option raw (created_at p)) df))\<rparr>)"

subsection \<open>export_top_posts\<close>

record top_post =
  tp_title :: string
  tp_upvotes :: int
  tp_comment_count :: int
  tp_author_name :: string
  tp_submolt_display_name :: string
  tp_created_at :: string

text \<open>\<open>int(x) if pd.notna(x) else 0\<close> and \<open>float(x) if pd.notna(x) else 0.0\<close>\<close>

definition int_or_0 :: "rat option \<Rightarrow> int" where
  "int_or_0 c = (case c of Some v \<Rightarrow> py_int v | None \<Rightarrow> 0)"

definition float_or_0 :: "rat option \<Rightarrow> rat" where
  "float_or_0 c = (case c of Some v \<Rightarrow> v | None \<Rightarrow> 0)"

text \<open>One record of \<open>to_dict('records')\<close> made serializable. The title is
  \<open>str(title) if title else 'Untitled'\<close>: the empty string is false, and NaN, which the
  \<open>fillna\<close> before has removed, would be true.\<close>

definition serializable_post :: "post \<Rightarrow> top_post" where
  "serializable_post p =
     \<lparr>tp_title = (case title p of None \<Rightarrow> ''nan'' | Some t \<Rightarrow> if t = [] then ''Untitled'' else t),
      tp_upvotes = int_or_0 (upvotes p),
      tp_comment_count = int_or_0 (comment_count p),
      tp_author_name = str_cell (author_name p),
      tp_submolt_display_name = str_cell (submolt_display_name p),
      tp_created_at = (case created_at p of None \<Rightarrow> [] | Some t \<Rightarrow> raw t)\<rparr>"

definition export_top_posts :: "data \<Rightarrow> nat \<Rightarrow> error + top_post list" where
  "export_top_posts d n =
     (let df = map (\<lambda>p. p\<lparr>title := fillna [] (title p),
                           author_name := fillna ''Unknown'' (author_name p),
                           submolt_display_name := fillna ''Unknown'' (submolt_display_name p)\<rparr>)
                 (posts d)
      in case nlargest (numeric_dtype (posts d)) n upvotes df of
           Inl e \<Rightarrow> Inl e
         | Inr largest \<Rightarrow> Inr (map serializable_post largest))"

subsection \<open>export_top_authors\<close>

record by_engagement_entry =
  en_name :: string
  en_engagement_rate :: rat
  en_total_posts :: int
  en_avg_upvotes :: rat
  en_success_rate :: rat

record by_posts_entry =
  bp_name :: string
  bp_total_posts :: int
  bp_avg_upvotes :: rat
  bp_posts_per_day :: rat

record by_consistency_entry =
  co_name :: string
  co_consistency_score :: rat
  co_total_posts :: int
  co_avg_upvotes :: rat
  co_upvotes_std :: rat

record top_authors_lists =
  by_engagement :: "by_engagement_entry list"
  by_posts :: "by_posts_entry list"
  by_consistency :: "by_consistency_entry list"

text \<open>\<open>author_stats.fillna(0)\<close> on a row: every missing statistic becomes 0. (The name
  column is filled too; it is never read.)\<close>

definition fillna_0 :: "author_row \<Rightarrow> author_row" where
  "fillna_0 r =
     r\<lparr>total_posts := fillna 0 (total_posts r),
       avg_upvotes := fillna 0 (avg_upvotes r),
       engagement_rate := fillna 0 (engagement_rate r),
       success_rate := fillna 0 (success_rate r),
       consistency_score := fillna 0 (consistency_score r),
       upvotes_std := fillna 0 (upvotes_std r),
       posts_per_day := fillna 0 (posts_per_day r)\<rparr>"

text \<open>\<open>author_stats['total_posts'] >= 5\<close> on one row; a comparison with NaN is false.\<close>

definition at_least_5_posts :: "author_row \<Rightarrow> bool" where
  "at_least_5_posts r = (case total_posts r of Some v \<Rightarrow> 5 \<le> v | None \<Rightarrow> False)"

text \<open>The three list entries of a row; \<open>row.name\<close> is the row's index label.\<close>

definition by_engagement_of :: "nat \<times> author_row \<Rightarrow> by_engagement_entry" where
  "by_engagement_of ir = (case ir of (i, row) \<Rightarrow>
     \<lparr>en_name = str_nat i,
      en_engagement_rate = float_or_0 (engagement_rate row),
      en_total_posts = int_or_0 (total_posts row),
      en_avg_upvotes = float_or_0 (avg_upvotes row),
      en_success_rate = float_or_0 (success_rate row)\<rparr>)"

definition by_posts_of :: "nat \<times> author_row \<Rightarrow> by_posts_entry" where
  "by_posts_of ir = (case ir of (i, row) \<Rightarrow>
     \<lparr>bp_name = str_nat i,
      bp_total_posts = int_or_0 (total_posts row),
      bp_avg_upvotes = float_or_0 (avg_upvotes row),
      bp_posts_per_day = float_or_0 (posts_per_day row)\<rparr>)"

definition by_consistency_of :: "nat \<times> author_row \<Rightarrow> by_consistency_entry" where
  "by_consistency_of ir = (case ir of (i, row) \<Rightarrow>
     \<lparr>co_name = str_nat i,
      co_consistency_score = float_or_0 (consistency_score row),
      co_total_posts = int_or_0 (total_posts row),
      co_avg_upvotes = float_or_0 (avg_upvotes row),
      co_upvotes_std = float_or_0 (upvotes_std row)\<rparr>)"

definition export_top_authors :: "data \<Rightarrow> nat \<Rightarrow> error + top_authors_lists" where
  "export_top_authors d n =
     (let stats = map (\<lambda>(i, row). (i, fillna_0 row)) (author_stats d);
          numeric = numeric_dtype (author_stats d);
          active = filter (\<lambda>(i, row). at_least_5_posts row) stats
      in case nlargest numeric n (\<lambda>(i, row). engagement_rate row) active of
           Inl e \<Rightarrow> Inl e
         | Inr eng \<Rightarrow>
        (case nlargest numeric n (\<lambda>(i, row). total_posts row) stats of
           Inl e \<Rightarrow> Inl e
         | Inr most \<Rightarrow>
        (case nlargest numeric n (\<lambda>(i, row). consistency_score row) active of
           Inl e \<Rightarrow> Inl e
         | Inr con \<Rightarrow>
             Inr \<lparr>by_engagement = map by_engagement_of eng,
                  by_posts = map by_posts_of most,
                  by_consistency = map by_consistency_of con\<rparr>)))"


subsection \<open>export_submolt_stats\<close>

text \<open>A row of the grouped and aggregated frame, after \<open>.round(2).fillna(0)\<close> and the
  renaming of the columns; the index label is the submolt's name.\<close>

record submolt_row =
  agg_post_count :: rat
  agg_total_upvotes :: rat
  agg_avg_upvotes :: rat
  agg_median_upvotes :: rat
  agg_total_comments :: rat
  agg_avg_comments :: rat
  agg_unique_authors :: rat

record submolt_entry =
  sm_name :: string
  sm_post_count :: int
  sm_total_upvotes :: int
  sm_avg_upvotes :: rat
  sm_median_upvotes :: rat
  sm_total_comments :: int
  sm_avg_comments :: rat
  sm_unique_authors :: int

definition round2_fillna_0 :: "rat option \<Rightarrow> rat" where
  "round2_fillna_0 c = float_or_0 (map_option round2 c)"

definition agg_submolt :: "post list \<Rightarrow> submolt_row" where
  "agg_submolt g =
     \<lparr>agg_post_count = round2_fillna_0 (Some (of_nat (count_col (map post_id g)))),
      agg_total_upvotes = round2_fillna_0 (Some (sum_col (map upvotes g))),
      agg_avg_upvotes = round2_fillna_0 (mean (map upvotes g)),
      agg_median_upvotes = round2_fillna_0 (median (map upvotes g)),
      agg_total_comments = round2_fillna_0 (Some (sum_col (map comment_count g))),
      agg_avg_comments = round2_fillna_0 (mean (map comment_count g)),
      agg_unique_authors = round2_fillna_0 (Some (of_nat (nunique (map author_name g))))\<rparr>"

definition submolt_entry_of :: "string \<times> submolt_row \<Rightarrow> submolt_entry" where
  "submolt_entry_of sr = (case sr of (submolt, row) \<Rightarrow>
     \<lparr>sm_name = submolt,
      sm_post_count = py_int (agg_post_count row),
      sm_total_upvotes = py_int (agg_total_upvotes row),
      sm_avg_upvotes = agg_avg_upvotes row,
      sm_median_upvotes = agg_median_upvotes row,
      sm_total_comments = py_int (agg_total_comments row),
      sm_avg_comments = agg_avg_comments row,
      sm_unique_authors = py_int (agg_unique_authors row)\<rparr>)"

text \<open>The aggregated counts are numbers, so \<open>nlargest\<close> accepts the column \<open>post_count\<close>.
  (\<open>main\<close> reaches this aggregator, the time series and the insights only with a posts
  table that has a row: on a table without rows \<open>export_top_posts\<close> raises before.)\<close>

definition export_submolt_stats :: "data \<Rightarrow> nat \<Rightarrow> error + submolt_entry list" where
  "export_submolt_stats d n =
     (let df = map (\<lambda>p. p\<lparr>submolt_display_name := fillna ''Unknown'' (submolt_display_name p),
                           upvotes := fillna 0 (upvotes p),
                           comment_count := fillna 0 (comment_count p)\<rparr>)
                 (posts d);
          submolt_stats = map (\<lambda>(k, g). (k, agg_submolt g)) (groupby submolt_display_name df)
      in case nlargest True n (\<lambda>(k, row). Some (agg_post_count row)) submolt_stats of
           Inl e \<Rightarrow> Inl e
         | Inr largest \<Rightarrow> Inr (map submolt_entry_of largest))"

subsection \<open>export_time_series\<close>

record daily_entry =
  dp_date :: "nat \<times> nat \<times> nat"
  dp_id :: nat
  dp_upvotes :: rat

record hourly_entry =
  hp_hour :: nat
  hp_id :: nat
  hp_upvotes :: rat

record day_of_week_entry =
  dw_day_of_week :: string
  dw_id :: nat
  dw_upvotes :: rat

record time_series_data =
  daily_posts :: "daily_entry list"
  hourly_pattern :: "hourly_entry list"
  day_of_week_pattern :: "day_of_week_entry list"

definition day_order :: "string list" where
  "day_order = [''Monday'', ''Tuesday'', ''Wednesday'', ''Thursday'', ''Friday'', ''Saturday'',
     ''Sunday'']"

text \<open>\<open>.agg({'id': 'count', 'upvotes': 'mean'})\<close> on one group.\<close>

definition count_and_mean :: "post list \<Rightarrow> nat \<times> rat option" where
  "count_and_mean g = (count_col (map post_id g), mean (map upvotes g))"

definition export_time_series :: "data \<Rightarrow> time_series_data" where
  "export_time_series d =
     (let df = map (\<lambda>p. p\<lparr>upvotes := fillna 0 (upvotes p)\<rparr>) (posts d);
          daily = map (\<lambda>(k, g). \<lparr>dp_date = k, dp_id = count_col (map post_id g),
                                  dp_upvotes = sum_col (map upvotes g)\<rparr>)
                    (groupby (\<lambda>p. map_option date (created_at p)) df);
          hourly = map (\<lambda>(k, g). \<lparr>hp_hour = k, hp_id = fst (count_and_mean g),
                                   hp_upvotes = float_or_0 (snd (count_and_mean g))\<rparr>)
                     (groupby (\<lambda>p. map_option hour (created_at p)) df);
          daily_pattern =
            map (\<lambda>(k, v). case v of
                   None \<Rightarrow> \<lparr>dw_day_of_week = k, dw_id = 0, dw_upvotes = 0\<rparr>
                 | Some (c, m) \<Rightarrow> \<lparr>dw_day_of_week = k, dw_id = c, dw_upvotes = float_or_0 m\<rparr>)
              (reindex day_order
                 (map (\<lambda>(k, g). (k, count_and_mean g))
                    (groupby (\<lambda>p. map_option day_name (created_at p)) df)))
      in \<lparr>daily_posts = daily, hourly_pattern = hourly, day_of_week_pattern = daily_pattern\<rparr>)"

subsection \<open>export_network_data\<close>

record cross_poster_entry =
  cp_author :: string
  cp_submolt_count :: nat
  cp_submolts :: "string list"

record bridge_author_entry =
  ba_author :: string
  ba_bridge_score :: rat

record network_data =
  stats :: "(string \<times> json) list"
  top_cross_posters :: "cross_poster_entry list"
  top_bridge_authors :: "bridge_author_entry list"

text \<open>\<open>cross_posters[author]\<close>; the author is a key of the dict, so the lookup finds it.\<close>

definition lookup :: "('k \<times> 'v list) list \<Rightarrow> 'k \<Rightarrow> 'v list" where
  "lookup m k = (case map_of m k of Some v \<Rightarrow> v | None \<Rightarrow> [])"

definition export_network_data :: "data \<Rightarrow> network_data" where
  "export_network_data d =
     (let cross_poster_counts =
            sort_reverse (\<lambda>x. int (snd x))
              (map (\<lambda>(author, submolts). (author, length submolts)) (cross_posters d));
          bridge_sorted = sort_reverse snd (bridge_authors d)
      in \<lparr>stats = network_stats d,
          top_cross_posters =
            map (\<lambda>(author, count).
                   \<lparr>cp_author = author, cp_submolt_count = count,
                    cp_submolts = take 5 (lookup (cross_posters d) author)\<rparr>)
              (take 20 cross_poster_counts),
          top_bridge_authors =
            map (\<lambda>(author, score). \<lparr>ba_author = author, ba_bridge_score = score\<rparr>)
              (take 20 bridge_sorted)\<rparr>)"


subsection \<open>export_insights\<close>

record engagement_block =
  eg_avg_upvotes :: "rat option"
  eg_median_upvotes :: "rat option"
  eg_top_1_percent_threshold :: "rat option"
  eg_viral_threshold :: "rat option"

record authors_block =
  au_total :: int
  au_active_5plus :: int
  au_avg_posts_per_author :: "rat option"
  au_cross_posting_rate :: rat

record content_block =
  ct_total_posts :: int
  ct_total_submolts :: int
  ct_avg_title_length :: "rat option"
  ct_posts_with_urls :: int

record timing_block =
  best_hour :: nat
  best_day :: string

record insights_data =
  engagement :: engagement_block
  authors :: authors_block
  content :: content_block
  timing :: timing_block

text \<open>\<open>f(col) if not col.isna().all() else 0.0\<close>; \<open>all\<close> of no cell is true.\<close>

definition unless_all_na :: "'a option list \<Rightarrow> rat option \<Rightarrow> rat option" where
  "unless_all_na col v = (if \<not> list_all isna col then v else Some 0)"

text \<open>\<open>df.groupby(key)['upvotes'].mean().fillna(0)\<close>: the series \<open>idxmax\<close> is taken of.\<close>

definition mean_upvotes_by :: "(post \<Rightarrow> 'k::linorder option) \<Rightarrow> post list \<Rightarrow> ('k \<times> rat) list" where
  "mean_upvotes_by key df =
     map (\<lambda>(k, g). (k, float_or_0 (mean (map upvotes g)))) (groupby key df)"

definition export_insights :: "data \<Rightarrow> error + insights_data" where
  "export_insights d =
     (let df = map (\<lambda>p. p\<lparr>upvotes := fillna 0 (upvotes p), title := fillna [] (title p),
                           url := fillna [] (url p)\<rparr>)
                 (posts d);
          author_stats = map (\<lambda>(i, row). (i, fillna_0 row)) (author_stats d);
          eg = \<lparr>eg_avg_upvotes = unless_all_na (map upvotes df) (mean (map upvotes df)),
                eg_median_upvotes = unless_all_na (map upvotes df) (median (map upvotes df)),
                eg_top_1_percent_threshold =
                  unless_all_na (map upvotes df) (quantile (99 / 100) (map upvotes df)),
                eg_viral_threshold =
                  unless_all_na (map upvotes df) (quantile (90 / 100) (map upvotes df))\<rparr>;
          au = \<lparr>au_total = int (nunique (map author_name df)),
                au_active_5plus =
                  int (length (filter (\<lambda>(i, row). at_least_5_posts row) author_stats)),
                au_avg_posts_per_author =
                  unless_all_na (map (\<lambda>(i, row). total_posts row) author_stats)
                    (mean (map (\<lambda>(i, row). total_posts row) author_stats)),
                au_cross_posting_rate =
                  (if 0 < length author_stats
                   then of_nat (length (cross_posters d)) / of_nat (length author_stats) * 100
                   else 0)\<rparr>;
          ct = \<lparr>ct_total_posts = int (length df),
                ct_total_submolts = int (nunique (map submolt_display_name df)),
                ct_avg_title_length =
                  unless_all_na (map title df)
                    (mean (map (\<lambda>p. map_option (\<lambda>t. of_nat (length t)) (title p)) df)),
                ct_posts_with_urls = int (length (filter (\<lambda>p. notna (url p)) df))\<rparr>
      in case idxmax (mean_upvotes_by (\<lambda>p. map_option hour (created_at p)) df) of
           Inl e \<Rightarrow> Inl e
         | Inr h \<Rightarrow>
        (case idxmax (mean_upvotes_by (\<lambda>p. map_option day_name (created_at p)) df) of
           Inl e \<Rightarrow> Inl e
         | Inr dn \<Rightarrow>
             Inr \<lparr>engagement = eg, authors = au, content = ct,
                  timing = \<lparr>best_hour = h, best_day = dn\<rparr>\<rparr>))"

subsection \<open>main\<close>

record dashboard_data =
  generated_at :: string
  overview :: overview_stats
  top_posts :: "top_post list"
  top_authors :: top_authors_lists
  top_submolts :: "submolt_entry list"
  time_series :: time_series_data
  network :: network_data
  insights :: insights_data

text \<open>
  \<open>json.dump(dashboard_data, f, ..., allow_nan=False)\<close> raises ValueError at a float that
  is not finite. The floats of the document that can be NaN are the \<open>rat option\<close> fields
  and the floats inside the network statistics.
\<close>

primrec finite_json :: "json \<Rightarrow> bool" where
  "finite_json JNull = True"
| "finite_json (JBool b) = True"
| "finite_json (JInt i) = True"
| "finite_json (JFloat x) = notna x"
| "finite_json (JString s) = True"
| "finite_json (JArray xs) = list_all (\<lambda>b. b) (map finite_json xs)"
| "finite_json (JObject kvs) = list_all snd (map (map_prod (\<lambda>k. k) finite_json) kvs)"

definition float_leaves :: "dashboard_data \<Rightarrow> rat option list" where
  "float_leaves doc =
     [ov_avg_upvotes_per_post (overview doc), ov_median_upvotes (overview doc),
      ov_avg_comments_per_post (overview doc),
      eg_avg_upvotes (engagement (insights doc)), eg_median_upvotes (engagement (insights doc)),
      eg_top_1_percent_threshold (engagement (insights doc)),
      eg_viral_threshold (engagement (insights doc)),
      au_avg_posts_per_author (authors (insights doc)),
      ct_avg_title_length (content (insights doc))]"

definition all_finite :: "dashboard_data \<Rightarrow> bool" where
  "all_finite doc =
     (list_all notna (float_leaves doc) \<and> list_all (\<lambda>kv. finite_json (snd kv)) (stats (network doc)))"

definition json_dump :: "dashboard_data \<Rightarrow> error + dashboard_data" where
  "json_dump doc = (if all_finite doc then Inr doc else Inl ValueError_out_of_range_float)"

text \<open>
  \<open>main\<close>, from the files read and the clock's \<open>datetime.now().isoformat()\<close> to the
  document written, or to the exception that ends the run. The sections are computed in
  the order of the dict display, so the first aggregator that raises ends the run, and
  the output file is opened only after all of them returned.
\<close>

definition main :: "inputs \<Rightarrow> string \<Rightarrow> error + dashboard_data" where
  "main inp now =
     (case load_all_data inp of
        Inl e \<Rightarrow> Inl e
      | Inr d \<Rightarrow>
     (let ov = export_overview_stats d in
      case export_top_posts d 20 of
        Inl e \<Rightarrow> Inl e
      | Inr tp \<Rightarrow>
     (case export_top_authors d 20 of
        Inl e \<Rightarrow> Inl e
      | Inr ta \<Rightarrow>
     (case export_submolt_stats d 30 of
        Inl e \<Rightarrow> Inl e
      | Inr ts \<Rightarrow>
     (let tser = export_time_series d; nw = export_network_data d in
      case export_insights d of
        Inl e \<Rightarrow> Inl e
      | Inr ins \<Rightarrow>
          json_dump \<lparr>generated_at = now, overview = ov, top_posts = tp, top_authors = ta,
                     top_submolts = ts, time_series = tser, network = nw,
                     insights = ins\<rparr>)))))"


subsection \<open>Sample inputs\<close>

text \<open>A post of Friday 30 January 2026, 10:15, with no URL, and the statistics of its
  author.\<close>

definition friday_morning :: stamp where
  "friday_morning =
     \<lparr>raw = ''2026-01-30T10:15:00'', date = (2026, 1, 30), hour = 10, day_name = ''Friday''\<rparr>"

definition sample_post :: post where
  "sample_post =
     \<lparr>post_id = Some ''p1'', title = Some ''Hello'', author_name = Some ''alice'',
      submolt_display_name = Some ''general'', upvotes = Some 12, comment_count = Some 3,
      created_at = Some friday_morning, url = None\<rparr>"

definition sample_author :: author_row where
  "sample_author =
     \<lparr>stats_author_name = Some ''alice'', total_posts = Some 10, avg_upvotes = Some 12,
      engagement_rate = Some (1 / 2), success_rate = None, consistency_score = Some 3,
      upvotes_std = Some 1, posts_per_day = Some 2\<rparr>"

definition sample_inputs :: inputs where
  "sample_inputs =
     \<lparr>posts_latest_csv = Content [sample_post],
      author_stats_csv = Content [sample_author],
      cross_posters_json = Content [(''alice'', [''general'', ''meta''])],
      bridge_authors_json = Content [(''alice'', 1 / 4)],
      network_stats_json = Content [(''density'', JFloat (Some (1 / 3)))]\<rparr>"

text \<open>The sample inputs as \<open>load_all_data\<close> returns them.\<close>

definition sample_data :: data where
  "sample_data =
     \<lparr>posts = [sample_post], author_stats = [(0, sample_author)],
      cross_posters = [(''alice'', [''general'', ''meta''])],
      bridge_authors = [(''alice'', 1 / 4)],
      network_stats = [(''density'', JFloat (Some (1 / 3)))]\<rparr>"

definition sample_now :: string where
  "sample_now = ''2026-02-01T09:00:00''"

text \<open>The sample post with its upvotes and comment count cells empty, as the only row of
  the table.\<close>

definition missing_counts_inputs :: inputs where
  "missing_counts_inputs =
     sample_inputs\<lparr>posts_latest_csv :=
       Content [sample_post\<lparr>upvotes := None, comment_count := None\<rparr>]\<rparr>"

text \<open>A cross-poster file in which an author's list names one submolt three times.\<close>

definition repeated_submolts_inputs :: inputs where
  "repeated_submolts_inputs =
     sample_inputs\<lparr>cross_posters_json :=
       Content [(''a'', [''x'', ''x'', ''x'']), (''b'', [''y'', ''z''])]\<rparr>"

text \<open>A post with a negative upvote count and a post whose upvotes cell is empty.\<close>

definition negative_and_missing_inputs :: inputs where
  "negative_and_missing_inputs =
     sample_inputs\<lparr>posts_latest_csv :=
       Content [sample_post\<lparr>upvotes := Some (- 5)\<rparr>,
                sample_post\<lparr>post_id := Some ''p2'', upvotes := None\<rparr>]\<rparr>"

text \<open>Two authors: bob, with 3 posts and the higher engagement rate, before alice in the
  statistics file; alice with six submolts and bob with one in the cross-poster file.\<close>

definition occasional_author :: author_row where
  "occasional_author =
     sample_author\<lparr>stats_author_name := Some ''bob'', total_posts := Some 3,
                   engagement_rate := Some 2, consistency_score := Some 9\<rparr>"

definition two_authors_inputs :: inputs where
  "two_authors_inputs =
     sample_inputs\<lparr>author_stats_csv := Content [occasional_author, sample_author],
                   cross_posters_json :=
                     Content [(''bob'', [''meta'']),
                              (''alice'', [''general'', ''meta'', ''a'', ''b'', ''c'', ''d''])]\<rparr>"

definition two_authors_data :: data where
  "two_authors_data =
     sample_data\<lparr>author_stats := [(0, occasional_author), (1, sample_author)],
                 cross_posters :=
                   [(''bob'', [''meta'']),
                    (''alice'', [''general'', ''meta'', ''a'', ''b'', ''c'', ''d''])]\<rparr>"

text \<open>A posts file with its header and no row.\<close>

definition no_posts_inputs :: inputs where
  "no_posts_inputs = sample_inputs\<lparr>posts_latest_csv := Content []\<rparr>"

subsection \<open>Notions the claims use\<close>

text \<open>A list in descending order; equal neighbours are allowed.\<close>

definition descending :: "'a::linorder list \<Rightarrow> bool" where
  "descending xs = sorted_wrt (\<lambda>a b. b \<le> a) xs"

text \<open>A numeric cell that is missing or holds a number that is not negative.\<close>

definition no_negative :: "rat option \<Rightarrow> bool" where
  "no_negative c = (case c of None \<Rightarrow> True | Some v \<Rightarrow> 0 \<le> v)"

text \<open>A document with the two values taken from the cross-poster mapping set to what an
  empty mapping gives.\<close>

definition without_cross_posters :: "dashboard_data \<Rightarrow> dashboard_data" where
  "without_cross_posters doc =
     doc\<lparr>network := (network doc)\<lparr>top_cross_posters := []\<rparr>,
         insights := (insights doc)\<lparr>authors := (authors (insights doc))\<lparr>au_cross_posting_rate := 0\<rparr>\<rparr>\<rparr>"

section \<open>Lemmas about the helpers\<close>

subsection \<open>Sorting and nlargest\<close>

lemma set_sort_reverse: "set (sort_reverse key xs) = set xs"
  by (simp add: sort_reverse_def)

lemma length_sort_reverse: "length (sort_reverse key xs) = length xs"
  by (simp add: sort_reverse_def)

lemma sort_reverse_descending:
  fixes key :: "'a \<Rightarrow> 'k::{linordered_ab_group_add}"
  shows "descending (map key (sort_reverse key xs))"
proof -
  have "sorted (map (\<lambda>x. - key x) (sort_key (\<lambda>x. - key x) xs))"
    by (rule sorted_sort_key)
  then have "sorted_wrt (\<lambda>x y. - key x \<le> - key y) (sort_key (\<lambda>x. - key x) xs)"
    by (simp add: sorted_map)
  then show ?thesis
    by (simp add: descending_def sort_reverse_def sorted_wrt_map)
qed

lemma descending_take: "descending xs \<Longrightarrow> descending (take n xs)"
  by (simp add: descending_def sorted_wrt_take)

lemma py_int_mono: "x \<le> y \<Longrightarrow> py_int x \<le> py_int y"
proof -
  assume xy: "x \<le> y"
  have fc: "\<lfloor>z\<rfloor> \<le> \<lceil>z\<rceil>" for z :: rat by (rule floor_le_ceiling)
  show ?thesis
  proof (cases "0 \<le> x")
    case True
    with xy show ?thesis by (simp add: py_int_def floor_mono)
  next
    case False
    show ?thesis
    proof (cases "0 \<le> y")
      case True
      have "\<lceil>x\<rceil> \<le> 0" using False by (simp add: ceiling_le_zero)
      moreover have "0 \<le> \<lfloor>y\<rfloor>" using True by simp
      ultimately have "\<lceil>x\<rceil> \<le> \<lfloor>y\<rfloor>" by (rule order_trans)
      then show ?thesis using False True by (simp add: py_int_def)
    next
      case False
      with xy \<open>\<not> 0 \<le> x\<close> show ?thesis by (simp add: py_int_def ceiling_mono)
    qed
  qed
qed

lemma py_int_nonneg: "0 \<le> x \<Longrightarrow> 0 \<le> py_int x"
  by (simp add: py_int_def)

lemma length_sort_values_desc: "length (sort_values_desc col df) = length df"
proof -
  have "length (filter (\<lambda>r. notna (col r)) df) + length (filter (\<lambda>r. isna (col r)) df) = length df"
    using sum_length_filter_compl [of "\<lambda>r. notna (col r)" df]
    by (simp add: notna_def isna_def)
  then show ?thesis
    by (simp add: sort_values_desc_def length_sort_reverse)
qed

lemma set_sort_values_desc: "set (sort_values_desc col df) = set df"
  by (auto simp: sort_values_desc_def set_sort_reverse notna_def isna_def)

lemma descending_int_or_0:
  assumes "list_all (\<lambda>r. notna (col r)) df \<or> list_all (\<lambda>r. no_negative (col r)) df"
  shows "descending (map (\<lambda>r. int_or_0 (col r)) (sort_values_desc col df))"
proof -
  let ?key = "\<lambda>r. case col r of Some v \<Rightarrow> v | None \<Rightarrow> 0"
  let ?present = "sort_reverse ?key (filter (\<lambda>r. notna (col r)) df)"
  let ?missing = "filter (\<lambda>r. isna (col r)) df"
  have key: "int_or_0 (col r) = py_int (?key r)" if "r \<in> set ?present" for r
    using that by (auto simp: set_sort_reverse notna_def int_or_0_def)
  have "descending (map ?key ?present)"
    by (rule sort_reverse_descending)
  then have "sorted_wrt (\<lambda>a b. py_int (?key b) \<le> py_int (?key a)) ?present"
    unfolding descending_def sorted_wrt_map
    by (rule sorted_wrt_mono_rel [rotated]) (simp add: py_int_mono)
  then have present: "sorted_wrt (\<lambda>a b. int_or_0 (col b) \<le> int_or_0 (col a)) ?present"
    by (rule sorted_wrt_mono_rel [rotated]) (simp add: key)
  have zero: "int_or_0 (col r) = 0" if "r \<in> set ?missing" for r
    using that by (simp add: isna_def int_or_0_def)
  have "sorted_wrt (\<lambda>a b. True) ?missing"
    by simp
  then have missing: "sorted_wrt (\<lambda>a b. int_or_0 (col b) \<le> int_or_0 (col a)) ?missing"
    by (rule sorted_wrt_mono_rel [rotated]) (simp add: zero)
  have cross: "int_or_0 (col b) \<le> int_or_0 (col a)"
    if a: "a \<in> set ?present" and b: "b \<in> set ?missing" for a b
  proof -
    from b have bdf: "b \<in> set df" and bna: "col b = None" by (simp_all add: isna_def)
    from assms show ?thesis
    proof
      assume "list_all (\<lambda>r. notna (col r)) df"
      with bdf bna show ?thesis by (auto simp: list_all_iff notna_def)
    next
      assume nn: "list_all (\<lambda>r. no_negative (col r)) df"
      from a have "a \<in> set df" by (simp add: set_sort_reverse)
      with nn have "no_negative (col a)" by (simp add: list_all_iff)
      then have "0 \<le> ?key a" by (simp add: no_negative_def split: option.splits)
      then have "0 \<le> py_int (?key a)" by (rule py_int_nonneg)
      with key [OF a] zero [OF b] show ?thesis by simp
    qed
  qed
  show ?thesis
    unfolding descending_def sorted_wrt_map sort_values_desc_def sorted_wrt_append
    using present missing cross by blast
qed


lemma length_nlargest:
  "nlargest numeric n col df = Inr rows \<Longrightarrow> length rows = min n (length df)"
  by (auto simp: nlargest_def length_sort_values_desc split: if_splits)

lemma set_nlargest:
  "nlargest numeric n col df = Inr rows \<Longrightarrow> set rows \<subseteq> set df"
  using set_take_subset [of n "sort_values_desc col df"]
  by (auto simp: nlargest_def set_sort_values_desc split: if_splits)


subsection \<open>Dicts built by json.load\<close>

lemma fst_set_dict_set: "fst ` set (dict_set k v d) = insert k (fst ` set d)"
proof (induction d)
  case Nil
  show ?case by simp
next
  case (Cons kv d)
  obtain k' v' where kv: "kv = (k', v')" by (cases kv)
  show ?case
  proof (cases "k = k'")
    case True
    then show ?thesis by (simp add: kv)
  next
    case False
    then show ?thesis using Cons.IH by (simp add: kv insert_commute)
  qed
qed

lemma distinct_dict_set:
  "distinct (map fst d) \<Longrightarrow> distinct (map fst (dict_set k v d))"
proof (induction d)
  case Nil
  then show ?case by simp
next
  case (Cons kv d)
  obtain k' v' where kv: "kv = (k', v')" by (cases kv)
  from Cons have "distinct (map fst (dict_set k v d))" by simp
  moreover have "k' \<notin> fst ` set (dict_set k v d)" if "k \<noteq> k'"
    using Cons.prems that by (simp add: fst_set_dict_set kv)
  ultimately show ?case using Cons.prems by (simp add: kv)
qed

lemma distinct_foldl_dict_set:
  "distinct (map fst d) \<Longrightarrow> distinct (map fst (foldl (\<lambda>d (k, v). dict_set k v d) d members))"
  by (induction members arbitrary: d) (auto simp: distinct_dict_set)

lemma distinct_json_object: "distinct (map fst (json_object members))"
  by (simp add: json_object_def distinct_foldl_dict_set)

lemma distinct_load_json: "distinct (map fst (load_json f))"
  by (cases f) (simp_all add: load_json_def distinct_json_object)

lemma load_all_data_cross_posters:
  "load_all_data inp = Inr d \<Longrightarrow> cross_posters d = load_json (cross_posters_json inp)"
  by (auto simp: load_all_data_def split: sum.splits)

lemma descending_take_drop:
  assumes "descending (map key xs)" and "a \<in> set (take n xs)" and "b \<in> set (drop n xs)"
  shows "key b \<le> key a"
proof -
  have "descending (map key (take n xs @ drop n xs))" using assms(1) by simp
  then show ?thesis
    using assms(2,3) unfolding descending_def sorted_wrt_map sorted_wrt_append by blast
qed


lemma load_sample_inputs: "load_all_data sample_inputs = Inr sample_data"
  by code_simp

lemma load_two_authors_inputs: "load_all_data two_authors_inputs = Inr two_authors_data"
  by code_simp

subsection \<open>What depends on the cross-poster mapping\<close>

lemma load_all_data_cross_file:
  "load_all_data (inp\<lparr>cross_posters_json := f\<rparr>) =
     map_sum id (\<lambda>d. d\<lparr>cross_posters := load_json f\<rparr>) (load_all_data inp)"
  by (simp add: load_all_data_def split: sum.splits)

lemma overview_cross: "export_overview_stats (d\<lparr>cross_posters := c\<rparr>) = export_overview_stats d"
  by (simp add: export_overview_stats_def)

lemma top_posts_cross: "export_top_posts (d\<lparr>cross_posters := c\<rparr>) n = export_top_posts d n"
  by (simp add: export_top_posts_def)

lemma top_authors_cross: "export_top_authors (d\<lparr>cross_posters := c\<rparr>) n = export_top_authors d n"
  by (simp add: export_top_authors_def)

lemma submolt_stats_cross: "export_submolt_stats (d\<lparr>cross_posters := c\<rparr>) n = export_submolt_stats d n"
  by (simp add: export_submolt_stats_def)

lemma time_series_cross: "export_time_series (d\<lparr>cross_posters := c\<rparr>) = export_time_series d"
  by (simp add: export_time_series_def)

lemma network_cross_empty:
  "export_network_data (d\<lparr>cross_posters := []\<rparr>) = (export_network_data d)\<lparr>top_cross_posters := []\<rparr>"
  by (simp add: export_network_data_def sort_reverse_def)

lemma insights_cross_empty:
  "export_insights (d\<lparr>cross_posters := []\<rparr>) =
     map_sum id (\<lambda>ins. ins\<lparr>authors := (authors ins)\<lparr>au_cross_posting_rate := 0\<rparr>\<rparr>) (export_insights d)"
  by (simp add: export_insights_def Let_def split: sum.splits)

lemma all_finite_cross:
  "all_finite (doc\<lparr>network := (network doc)\<lparr>top_cross_posters := x\<rparr>,
                    insights := (insights doc)\<lparr>authors := (authors (insights doc))\<lparr>au_cross_posting_rate := y\<rparr>\<rparr>\<rparr>)
     = all_finite doc"
  by (simp add: all_finite_def float_leaves_def)


lemma main_loaded:
  "load_all_data inp = Inr d \<Longrightarrow> load_all_data inp' = Inr (d\<lparr>cross_posters := []\<rparr>) \<Longrightarrow>
   main inp' now = map_sum id without_cross_posters (main inp now)"
  by (simp add: main_def Let_def overview_cross top_posts_cross top_authors_cross
      submolt_stats_cross time_series_cross network_cross_empty insights_cross_empty
      json_dump_def all_finite_def float_leaves_def without_cross_posters_def
      split: sum.splits)

lemma main_cross_file_empty:
  assumes "load_json f = []"
  shows "main (inp\<lparr>cross_posters_json := f\<rparr>) now =
     map_sum id without_cross_posters (main (inp\<lparr>cross_posters_json := c\<rparr>) now)"
proof (cases "load_all_data inp")
  case (Inl e)
  then show ?thesis
    by (simp add: main_def load_all_data_cross_file)
next
  case (Inr d)
  have "load_all_data (inp\<lparr>cross_posters_json := c\<rparr>) = Inr (d\<lparr>cross_posters := load_json c\<rparr>)"
    by (simp add: load_all_data_cross_file Inr)
  moreover have "load_all_data (inp\<lparr>cross_posters_json := f\<rparr>) =
      Inr (d\<lparr>cross_posters := load_json c\<rparr>\<lparr>cross_posters := []\<rparr>)"
    by (simp add: load_all_data_cross_file Inr assms)
  ultimately show ?thesis by (rule main_loaded)
qed


subsection \<open>The writer, the overview, the time series, the insights, the author names\<close>

lemma json_dump_finite: "json_dump x = Inr doc \<Longrightarrow> all_finite doc"
  by (simp add: json_dump_def split: if_splits)

lemma writer_rejects_nan: "main inp now = Inr doc \<Longrightarrow> all_finite doc"
  by (simp add: main_def Let_def split: sum.splits) (blast dest: json_dump_finite)

lemma dropna_all_missing: "list_all isna col \<Longrightarrow> dropna col = []"
  by (induction col) (auto simp: dropna_def isna_def List.map_filter_simps)

lemma overview_nan_when_all_missing:
  assumes "list_all (\<lambda>p. isna (upvotes p)) (posts d)"
  shows "ov_avg_upvotes_per_post (export_overview_stats d) = None \<and>
         ov_median_upvotes (export_overview_stats d) = None"
proof -
  from assms have "list_all isna (map upvotes (posts d))"
    by (simp add: list_all_iff)
  then have "dropna (map upvotes (posts d)) = []" by (rule dropna_all_missing)
  then show ?thesis
    by (simp add: export_overview_stats_def mean_def median_def Let_def)
qed

lemma overview_nan_when_all_comments_missing:
  assumes "list_all (\<lambda>p. isna (comment_count p)) (posts d)"
  shows "ov_avg_comments_per_post (export_overview_stats d) = None"
proof -
  from assms have "list_all isna (map comment_count (posts d))"
    by (simp add: list_all_iff)
  then have "dropna (map comment_count (posts d)) = []" by (rule dropna_all_missing)
  then show ?thesis
    by (simp add: export_overview_stats_def mean_def Let_def)
qed

lemma json_dump_same: "json_dump x = Inr doc \<Longrightarrow> doc = x"
  by (simp add: json_dump_def split: if_splits)

lemma generated_at_is_clock: "main inp now = Inr doc \<Longrightarrow> generated_at doc = now"
  by (simp add: main_def Let_def split: sum.splits) (auto dest: json_dump_same)

lemma groupby_keys:
  "map fst (groupby key df) = sort (remdups (dropna (map key df)))"
  by (simp add: groupby_def comp_def)

lemma hourly_pattern_hours:
  "map hp_hour (hourly_pattern (export_time_series d)) =
     sort (remdups (dropna (map (\<lambda>p. map_option hour (created_at p)) (posts d))))"
proof -
  let ?df = "map (\<lambda>p. p\<lparr>upvotes := fillna 0 (upvotes p)\<rparr>) (posts d)"
  let ?key = "\<lambda>p. map_option hour (created_at p)"
  have "hourly_pattern (export_time_series d) =
      map (\<lambda>(k, g). \<lparr>hp_hour = k, hp_id = fst (count_and_mean g),
                        hp_upvotes = float_or_0 (snd (count_and_mean g))\<rparr>) (groupby ?key ?df)"
    by (simp add: export_time_series_def Let_def)
  then have "map hp_hour (hourly_pattern (export_time_series d)) = map fst (groupby ?key ?df)"
    by (simp add: split_def)
  also have "\<dots> = sort (remdups (dropna (map ?key ?df)))"
    by (rule groupby_keys)
  also have "map ?key ?df = map ?key (posts d)"
    by simp
  finally show ?thesis .
qed

lemma day_of_week_pattern_days:
  "map dw_day_of_week (day_of_week_pattern (export_time_series d)) = day_order"
proof -
  have "map dw_day_of_week (map (\<lambda>(k, v). case v of
                   None \<Rightarrow> \<lparr>dw_day_of_week = k, dw_id = 0, dw_upvotes = 0\<rparr>
                 | Some (c, m) \<Rightarrow> \<lparr>dw_day_of_week = k, dw_id = c, dw_upvotes = float_or_0 m\<rparr>)
              (reindex labels grouped)) = labels" for labels :: "string list" and grouped
    by (induction labels) (auto simp: reindex_def split: option.splits)
  then show ?thesis
    by (simp add: export_time_series_def Let_def)
qed

lemma posts_with_urls_counts_every_post:
  assumes "export_insights d = Inr ins"
  shows "ct_posts_with_urls (content ins) = int (length (posts d))"
proof -
  let ?df = "map (\<lambda>p. p\<lparr>upvotes := fillna 0 (upvotes p), title := fillna [] (title p),
                           url := fillna [] (url p)\<rparr>) (posts d)"
  have all: "filter (\<lambda>p. notna (url p)) ?df = ?df"
    by (simp add: notna_def fillna_def split: option.splits)
  from assms have "ct_posts_with_urls (content ins) = int (length (filter (\<lambda>p. notna (url p)) ?df))"
    unfolding export_insights_def Let_def
    by (simp split: sum.splits) fastforce
  then show ?thesis
    by (simp only: all length_map)
qed

lemma top_authors_names_are_labels:
  assumes "export_top_authors d n = Inr ta"
  shows "set (map bp_name (by_posts ta)) \<subseteq> str_nat ` fst ` set (author_stats d)"
proof -
  let ?stats = "map (\<lambda>(i, row). (i, fillna_0 row)) (author_stats d)"
  from assms obtain most where
    most: "nlargest (numeric_dtype (author_stats d)) n (\<lambda>(i, row). total_posts row) ?stats = Inr most"
    and ta: "by_posts ta = map by_posts_of most"
    by (auto simp: export_top_authors_def Let_def split: sum.splits)
  have "bp_name (by_posts_of x) \<in> str_nat ` fst ` set (author_stats d)" if "x \<in> set most" for x
  proof -
    from that set_nlargest [OF most] have "x \<in> set ?stats" by blast
    then obtain i row where "(i, row) \<in> set (author_stats d)" and "x = (i, fillna_0 row)" by auto
    then show ?thesis by (force simp: by_posts_of_def)
  qed
  then show ?thesis by (auto simp: ta)
qed


lemma enumerate_labels: "fst ` set (List.enumerate 0 rows) = {0..<length rows}"
  by (simp add: enumerate_eq_zip) (metis length_upt map_fst_zip set_map set_upt minus_nat.diff_0)


section \<open>The claims\<close>

subsection \<open>C1: finite numbers\<close>

text \<open>
  Claim C1: every numeric leaf of the output document is finite, the writer rejects a
  value that is not, and the overview's mean and median fields are finite even when the
  upvote and comment columns are entirely missing.

  The writer does reject NaN (\<open>writer_rejects_nan\<close>: a document that is written has only
  finite floats). The overview aggregator does not substitute a default, unlike the
  insights aggregator, which fills the column and guards each statistic: when every
  upvotes cell is missing its mean and median are NaN, and so is the mean of the comment
  counts when every such cell is missing (\<open>overview_nan_when_all_missing\<close>,
  \<open>overview_nan_when_all_comments_missing\<close>). For the posts table whose only row has empty
  upvotes and comment count cells, the overview's three fields are NaN and the run ends
  in the writer's ValueError instead of a document.
\<close>

theorem overview_nan_ends_run:
  "map_sum id (\<lambda>d. (ov_avg_upvotes_per_post (export_overview_stats d),
                     ov_median_upvotes (export_overview_stats d),
                     ov_avg_comments_per_post (export_overview_stats d)))
     (load_all_data missing_counts_inputs) = Inr (None, None, None) \<and>
   main missing_counts_inputs sample_now = Inl ValueError_out_of_range_float"
  by code_simp

subsection \<open>C2: the hourly and day-of-week patterns\<close>

text \<open>
  Claim C2: \<open>hourly_pattern\<close> has exactly 24 entries, one per hour 0 to 23, the missing
  hours filled with 0, and \<open>day_of_week_pattern\<close> has exactly 7 entries, Monday to Sunday.

  The day-of-week part holds: the grouped result is reindexed by \<open>day_order\<close>
  (\<open>day_of_week_pattern_days\<close>). The hourly result is not reindexed: it has one entry per
  hour that occurs in the table (\<open>hourly_pattern_hours\<close>). For the sample table, whose
  only post is of 10 o'clock, \<open>hourly_pattern\<close> has the single entry of hour 10.
\<close>

theorem hourly_pattern_single_hour:
  "map_sum id (\<lambda>doc. map hp_hour (hourly_pattern (time_series doc)))
     (main sample_inputs sample_now) = Inr [10] \<and>
   map_sum id (\<lambda>doc. length (day_of_week_pattern (time_series doc)))
     (main sample_inputs sample_now) = Inr 7"
  by code_simp

subsection \<open>C3: posts with URLs\<close>

text \<open>
  Claim C3: \<open>insights.content.posts_with_urls\<close> is the number of posts whose URL is not
  missing.

  The aggregator fills the missing URLs with the empty string before it counts the cells
  that are not missing, so it counts every post (\<open>posts_with_urls_counts_every_post\<close>).
  The sample table's only post has no URL, and \<open>posts_with_urls\<close> is 1.
\<close>

theorem posts_with_urls_counts_post_without_url:
  "map_sum id (\<lambda>doc. ct_posts_with_urls (content (insights doc)))
     (main sample_inputs sample_now) = Inr 1 \<and>
   map_sum id (\<lambda>d. length (filter (\<lambda>p. notna (url p)) (posts d)))
     (load_all_data sample_inputs) = Inr 0"
  by code_simp

subsection \<open>C4: the names in the author rankings\<close>

text \<open>
  Claim C4: each entry of the three \<open>top_authors\<close> rankings has in its \<open>name\<close> field the
  author name of the record of the statistics table it reports.

  The table is read without an index column, so a row's \<open>name\<close> is its position in the
  file, and the entry's name is that number as text (\<open>top_authors_names_are_labels\<close>,
  \<open>enumerate_labels\<close>). For the sample table, whose only row is the one of alice, the
  three rankings name their entry 0.
\<close>

theorem top_authors_named_by_position:
  "map_sum id (\<lambda>doc. (map en_name (by_engagement (top_authors doc)),
                       map bp_name (by_posts (top_authors doc)),
                       map co_name (by_consistency (top_authors doc))))
     (main sample_inputs sample_now) = Inr ([''0''], [''0''], [''0'']) \<and>
   map_sum id (\<lambda>d. map (\<lambda>ir. stats_author_name (snd ir)) (author_stats d))
     (load_all_data sample_inputs) = Inr [Some ''alice'']"
  by code_simp

subsection \<open>C5: the top cross-posters\<close>

text \<open>
  Claim C5, as stated: at most 20 entries, ranked descending by the number of distinct
  submolts of the author, each with the author's name, that count and the first 5 names
  of the author's list.

  The code counts the names of the list, repeated ones too. With a list that names one
  submolt three times, author a (one distinct submolt) is ranked before author b (two),
  with the count 3.
\<close>

theorem repeated_submolts_counted:
  "map_sum id (\<lambda>doc. map (\<lambda>e. (cp_author e, cp_submolt_count e))
                        (top_cross_posters (network doc)))
     (main repeated_submolts_inputs sample_now) = Inr [(''a'', 3), (''b'', 2)] \<and>
   card (set [''x'', ''x'', ''x'']) = 1 \<and> card (set [''y'', ''z'']) = 2"
  by (intro conjI, code_simp) simp_all

text \<open>
  Claim C5, amended: for every cross-poster mapping loaded, \<open>top_cross_posters\<close> has
  min(20, number of authors) entries, in descending order of the length of the author's
  submolt list; each entry has the author's name, the length of that author's list (the
  number of distinct submolts when the list names none twice) and the first 5 names of
  the list in the list's order; and no author left out has a longer list than an author
  listed.
\<close>

theorem top_cross_posters_ranked:
  assumes load: "load_all_data inp = Inr d"
  shows "length (top_cross_posters (export_network_data d)) = min 20 (length (cross_posters d)) \<and>
     descending (map cp_submolt_count (top_cross_posters (export_network_data d))) \<and>
     (\<forall>e\<in>set (top_cross_posters (export_network_data d)).
        \<exists>submolts. (cp_author e, submolts) \<in> set (cross_posters d) \<and>
          cp_submolt_count e = length submolts \<and> cp_submolts e = take 5 submolts \<and>
          (distinct submolts \<longrightarrow> cp_submolt_count e = card (set submolts))) \<and>
     (\<forall>as\<in>set (cross_posters d).
        fst as \<notin> cp_author ` set (top_cross_posters (export_network_data d)) \<longrightarrow>
        (\<forall>e\<in>set (top_cross_posters (export_network_data d)). length (snd as) \<le> cp_submolt_count e))"
proof -
  let ?cp = "cross_posters d"
  let ?counts = "sort_reverse (\<lambda>x. int (snd x)) (map (\<lambda>(author, submolts). (author, length submolts)) ?cp)"
  let ?entry = "\<lambda>(author, count). \<lparr>cp_author = author, cp_submolt_count = count,
                    cp_submolts = take 5 (lookup ?cp author)\<rparr>"
  let ?out = "top_cross_posters (export_network_data d)"
  have out: "?out = map ?entry (take 20 ?counts)"
    by (simp add: export_network_data_def)
  have dist: "distinct (map fst ?cp)"
    using load by (simp add: load_all_data_cross_posters distinct_load_json)
  have counts: "set ?counts = (\<lambda>(author, submolts). (author, length submolts)) ` set ?cp"
    by (simp add: set_sort_reverse)
  have len: "length ?out = min 20 (length ?cp)"
    by (simp add: out length_sort_reverse)
  have "descending (map (\<lambda>x. int (snd x)) ?counts)"
    by (rule sort_reverse_descending)
  then have desc_counts: "descending (map snd ?counts)"
    by (simp add: descending_def sorted_wrt_map)
  then have "descending (map snd (take 20 ?counts))"
    by (simp add: descending_def sorted_wrt_map sorted_wrt_take)
  moreover have "map cp_submolt_count ?out = map snd (take 20 ?counts)"
    by (simp add: out split_def)
  ultimately have desc: "descending (map cp_submolt_count ?out)" by simp
  have entries: "\<exists>submolts. (cp_author e, submolts) \<in> set ?cp \<and>
          cp_submolt_count e = length submolts \<and> cp_submolts e = take 5 submolts \<and>
          (distinct submolts \<longrightarrow> cp_submolt_count e = card (set submolts))"
    if "e \<in> set ?out" for e
  proof -
    from that obtain x where x: "x \<in> set (take 20 ?counts)" and e: "e = ?entry x"
      by (auto simp: out)
    from x have "x \<in> set ?counts" by (rule in_set_takeD)
    with counts obtain author submolts where
      mem: "(author, submolts) \<in> set ?cp" and xeq: "x = (author, length submolts)"
      by auto
    from dist mem have "map_of ?cp author = Some submolts" by simp
    then have "lookup ?cp author = submolts" by (simp add: lookup_def)
    with mem xeq e show ?thesis
      by (auto simp: distinct_card)
  qed
  have rest: "length (snd as) \<le> cp_submolt_count e"
    if as: "as \<in> set ?cp" and out_of: "fst as \<notin> cp_author ` set ?out" and e: "e \<in> set ?out" for as e
  proof -
    let ?x = "(fst as, length (snd as))"
    from as have "?x \<in> set ?counts"
      unfolding counts by (force simp: split_def)
    then have "?x \<in> set (take 20 ?counts) \<or> ?x \<in> set (drop 20 ?counts)"
      using append_take_drop_id [of 20 ?counts] by (metis Un_iff set_append)
    moreover have "?x \<notin> set (take 20 ?counts)"
    proof
      assume "?x \<in> set (take 20 ?counts)"
      then have "?entry ?x \<in> set ?out" unfolding out set_map by (rule imageI)
      then have "fst as \<in> cp_author ` set ?out" by force
      with out_of show False by simp
    qed
    ultimately have dropped: "?x \<in> set (drop 20 ?counts)" by simp
    from e obtain y where y: "y \<in> set (take 20 ?counts)" and ey: "e = ?entry y"
      by (auto simp: out)
    from descending_take_drop [OF desc_counts y dropped] ey show ?thesis
      by (simp add: split_def)
  qed
  from len desc entries rest show ?thesis by blast
qed


theorem top_cross_posters_ranked_witness:
  "load_all_data two_authors_inputs = Inr two_authors_data \<and>
   length (top_cross_posters (export_network_data two_authors_data)) =
     min 20 (length (cross_posters two_authors_data)) \<and>
   descending (map cp_submolt_count (top_cross_posters (export_network_data two_authors_data))) \<and>
   map (\<lambda>e. (cp_author e, cp_submolt_count e, cp_submolts e))
     (top_cross_posters (export_network_data two_authors_data)) =
     [(''alice'', 6, [''general'', ''meta'', ''a'', ''b'', ''c'']), (''bob'', 1, [''meta''])]"
proof -
  have entries: "map (\<lambda>e. (cp_author e, cp_submolt_count e, cp_submolts e))
     (top_cross_posters (export_network_data two_authors_data)) =
     [(''alice'', 6, [''general'', ''meta'', ''a'', ''b'', ''c'']), (''bob'', 1, [''meta''])]"
    by code_simp
  from top_cross_posters_ranked [OF load_two_authors_inputs] load_two_authors_inputs entries
  show ?thesis by blast
qed

subsection \<open>C6: the top posts\<close>

text \<open>
  What holds of the ranking as the code has it, for every posts table on which the
  aggregator returns and every \<open>n\<close>: \<open>top_posts\<close> has min(n, number of posts) entries, and
  it is in descending order of upvotes when no upvotes cell is missing or no upvote
  count is negative.
\<close>

lemma top_posts_descending:
  assumes run: "export_top_posts d n = Inr tp"
    and ups: "list_all (\<lambda>p. notna (upvotes p)) (posts d) \<or> list_all (\<lambda>p. no_negative (upvotes p)) (posts d)"
  shows "length tp = min n (length (posts d)) \<and> descending (map tp_upvotes tp)"
proof -
  let ?fill = "\<lambda>p. p\<lparr>title := fillna [] (title p),
                      author_name := fillna ''Unknown'' (author_name p),
                      submolt_display_name := fillna ''Unknown'' (submolt_display_name p)\<rparr>"
  let ?df = "map ?fill (posts d)"
  from run have tp: "tp = map serializable_post (take n (sort_values_desc upvotes ?df))"
    by (auto simp: export_top_posts_def nlargest_def split: if_splits)
  have len: "length tp = min n (length (posts d))"
    by (simp add: tp length_sort_values_desc)
  from ups have "list_all (\<lambda>p. notna (upvotes p)) ?df \<or> list_all (\<lambda>p. no_negative (upvotes p)) ?df"
    by (simp add: list_all_iff)
  then have "descending (map (\<lambda>r. int_or_0 (upvotes r)) (sort_values_desc upvotes ?df))"
    by (rule descending_int_or_0)
  then have "descending (take n (map (\<lambda>r. int_or_0 (upvotes r)) (sort_values_desc upvotes ?df)))"
    by (rule descending_take)
  moreover have "map tp_upvotes tp = take n (map (\<lambda>r. int_or_0 (upvotes r)) (sort_values_desc upvotes ?df))"
    by (simp add: tp take_map serializable_post_def)
  ultimately show ?thesis using len by simp
qed

text \<open>
  The other aggregators that read the upvotes (\<open>export_submolt_stats\<close>,
  \<open>export_time_series\<close>, \<open>export_insights\<close>) fill the missing cells with 0 before they
  aggregate. Had \<open>export_top_posts\<close> done so before \<open>nlargest\<close>, the upvotes it reports
  would be in descending order for every table.
\<close>

lemma upvotes_filled_first_descending:
  "descending (map (\<lambda>r. int_or_0 (upvotes r))
     (take n (sort_values_desc upvotes (map (\<lambda>p. p\<lparr>upvotes := fillna 0 (upvotes p)\<rparr>) df))))"
proof -
  let ?df = "map (\<lambda>p. p\<lparr>upvotes := fillna 0 (upvotes p)\<rparr>) df"
  have "list_all (\<lambda>p. notna (upvotes p)) ?df"
    by (simp add: list_all_iff notna_def fillna_def split: option.splits)
  then have "list_all (\<lambda>p. notna (upvotes p)) ?df \<or> list_all (\<lambda>p. no_negative (upvotes p)) ?df"
    by (rule disjI1)
  then have "descending (map (\<lambda>r. int_or_0 (upvotes r)) (sort_values_desc upvotes ?df))"
    by (rule descending_int_or_0)
  then have "descending (take n (map (\<lambda>r. int_or_0 (upvotes r)) (sort_values_desc upvotes ?df)))"
    by (rule descending_take)
  then show ?thesis by (simp add: take_map)
qed

text \<open>
  Claim C6: for every posts table, \<open>top_posts\<close> has at most min(20, number of posts)
  entries and is in descending order of upvotes.

  The aggregator ranks before it defaults: \<open>nlargest\<close> puts a post whose upvotes cell is
  missing after all the others, and the cell is rendered as 0 only afterwards. For the
  table of a post with the count -5 and a post with an empty upvotes cell, \<open>top_posts\<close>
  lists the upvotes -5 and then 0, which is not descending.
\<close>

theorem missing_upvotes_after_negative:
  "map_sum id (\<lambda>doc. map tp_upvotes (top_posts doc))
     (main negative_and_missing_inputs sample_now) = Inr [- 5, 0] \<and>
   \<not> descending [- 5, 0 :: int]"
  by (intro conjI, code_simp) (simp add: descending_def)

subsection \<open>C7: the activity filter\<close>

text \<open>
  Claim C7: every author in \<open>by_engagement\<close> or \<open>by_consistency\<close> has a total post count
  of at least 5 in the statistics table, a missing count taken as 0; \<open>by_posts\<close> has no
  such filter.

  Each entry of the two rankings is the entry of a row of the table (its name is the
  row's label) whose post count, 0 when missing, is at least 5, and it reports that
  count. \<open>by_posts\<close> ranks all rows: it has min(n, number of rows) entries.
\<close>

theorem active_authors_only:
  assumes run: "export_top_authors d n = Inr ta"
  shows "(\<forall>e\<in>set (by_engagement ta). \<exists>ir\<in>set (author_stats d).
            en_name e = str_nat (fst ir) \<and> 5 \<le> float_or_0 (total_posts (snd ir)) \<and>
            en_total_posts e = py_int (float_or_0 (total_posts (snd ir)))) \<and>
         (\<forall>e\<in>set (by_consistency ta). \<exists>ir\<in>set (author_stats d).
            co_name e = str_nat (fst ir) \<and> 5 \<le> float_or_0 (total_posts (snd ir)) \<and>
            co_total_posts e = py_int (float_or_0 (total_posts (snd ir)))) \<and>
         length (by_posts ta) = min n (length (author_stats d))"
proof -
  let ?stats = "map (\<lambda>(i, row). (i, fillna_0 row)) (author_stats d)"
  let ?active = "filter (\<lambda>(i, row). at_least_5_posts row) ?stats"
  let ?num = "numeric_dtype (author_stats d)"
  from run obtain eng most con where
    eng: "nlargest ?num n (\<lambda>(i, row). engagement_rate row) ?active = Inr eng" and
    most: "nlargest ?num n (\<lambda>(i, row). total_posts row) ?stats = Inr most" and
    con: "nlargest ?num n (\<lambda>(i, row). consistency_score row) ?active = Inr con" and
    ta: "ta = \<lparr>by_engagement = map by_engagement_of eng, by_posts = map by_posts_of most,
               by_consistency = map by_consistency_of con\<rparr>"
    by (auto simp: export_top_authors_def Let_def split: sum.splits)
  have active: "\<exists>i row. (i, row) \<in> set (author_stats d) \<and> x = (i, fillna_0 row) \<and>
      5 \<le> float_or_0 (total_posts row)" if "x \<in> set ?active" for x
  proof -
    from that obtain i row where ir: "(i, row) \<in> set (author_stats d)" and x: "x = (i, fillna_0 row)"
      and five: "at_least_5_posts (fillna_0 row)"
      by auto
    from five have "5 \<le> float_or_0 (total_posts row)"
      by (simp add: at_least_5_posts_def fillna_0_def fillna_def float_or_0_def split: option.splits)
    with ir x show ?thesis by blast
  qed
  have filled: "int_or_0 (total_posts (fillna_0 row)) = py_int (float_or_0 (total_posts row))" for row
    by (simp add: fillna_0_def fillna_def float_or_0_def int_or_0_def split: option.splits)
  have "\<exists>ir\<in>set (author_stats d).
            en_name e = str_nat (fst ir) \<and> 5 \<le> float_or_0 (total_posts (snd ir)) \<and>
            en_total_posts e = py_int (float_or_0 (total_posts (snd ir)))"
    if "e \<in> set (by_engagement ta)" for e
  proof -
    from that ta obtain x where "x \<in> set eng" and e: "e = by_engagement_of x" by auto
    with set_nlargest [OF eng] have "x \<in> set ?active" by blast
    from active [OF this] obtain i row where ir: "(i, row) \<in> set (author_stats d)"
      and x: "x = (i, fillna_0 row)" and five: "5 \<le> float_or_0 (total_posts row)" by blast
    show ?thesis
      by (rule bexI [OF _ ir]) (simp add: e x by_engagement_of_def filled five)
  qed
  moreover have "\<exists>ir\<in>set (author_stats d).
            co_name e = str_nat (fst ir) \<and> 5 \<le> float_or_0 (total_posts (snd ir)) \<and>
            co_total_posts e = py_int (float_or_0 (total_posts (snd ir)))"
    if "e \<in> set (by_consistency ta)" for e
  proof -
    from that ta obtain x where "x \<in> set con" and e: "e = by_consistency_of x" by auto
    with set_nlargest [OF con] have "x \<in> set ?active" by blast
    from active [OF this] obtain i row where ir: "(i, row) \<in> set (author_stats d)"
      and x: "x = (i, fillna_0 row)" and five: "5 \<le> float_or_0 (total_posts row)" by blast
    show ?thesis
      by (rule bexI [OF _ ir]) (simp add: e x by_consistency_of_def filled five)
  qed
  moreover have "length (by_posts ta) = min n (length (author_stats d))"
    using length_nlargest [OF most] by (simp add: ta)
  ultimately show ?thesis by blast
qed


theorem active_authors_only_witness:
  "map_sum id (\<lambda>ta. (map en_total_posts (by_engagement ta),
                      map co_total_posts (by_consistency ta),
                      map bp_total_posts (by_posts ta), length (by_posts ta)))
     (export_top_authors two_authors_data 20) =
     Inr ([10], [10], [10, 3], min 20 (length (author_stats two_authors_data)))"
proof -
  have val: "map_sum id (\<lambda>ta. (map en_total_posts (by_engagement ta),
                      map co_total_posts (by_consistency ta),
                      map bp_total_posts (by_posts ta)))
      (export_top_authors two_authors_data 20) = Inr ([10], [10], [10, 3])"
    by code_simp
  then obtain ta where run: "export_top_authors two_authors_data 20 = Inr ta"
    and eng: "map en_total_posts (by_engagement ta) = [10]"
    and con: "map co_total_posts (by_consistency ta) = [10]"
    and most: "map bp_total_posts (by_posts ta) = [10, 3]"
    by (cases "export_top_authors two_authors_data 20") auto
  from active_authors_only [OF run]
  have "length (by_posts ta) = min 20 (length (author_stats two_authors_data))"
    by blast
  with run eng con most show ?thesis by simp
qed

subsection \<open>C8: the cross-poster file missing\<close>

text \<open>
  Claim C8: when the cross-poster file is missing, unreadable or malformed, the loader
  takes the empty mapping and the run goes on; in the output \<open>top_cross_posters\<close> is
  empty and \<open>cross_posting_rate\<close> is 0.0, and every other section is what it is with the
  other inputs unchanged.

  The loader's result is the one for any cross-poster file with the mapping emptied; the
  run ends as it does with any cross-poster file \<open>c\<close> in its place (the same exception,
  or a document), and its document is that run's document with \<open>top_cross_posters\<close>
  empty and \<open>cross_posting_rate\<close> 0.
\<close>

theorem missing_cross_posters_file:
  assumes "f = Absent \<or> f = Unreadable \<or> f = Malformed"
  shows "load_all_data (inp\<lparr>cross_posters_json := f\<rparr>) =
           map_sum id (\<lambda>d. d\<lparr>cross_posters := []\<rparr>) (load_all_data inp) \<and>
         main (inp\<lparr>cross_posters_json := f\<rparr>) now =
           map_sum id without_cross_posters (main (inp\<lparr>cross_posters_json := c\<rparr>) now) \<and>
         (\<forall>doc. main (inp\<lparr>cross_posters_json := f\<rparr>) now = Inr doc \<longrightarrow>
            top_cross_posters (network doc) = [] \<and>
            au_cross_posting_rate (authors (insights doc)) = 0)"
proof -
  from assms have empty: "load_json f = ([] :: (string \<times> string list) list)"
    by (auto simp: load_json_def)
  have loaded: "load_all_data (inp\<lparr>cross_posters_json := f\<rparr>) =
           map_sum id (\<lambda>d. d\<lparr>cross_posters := []\<rparr>) (load_all_data inp)"
    by (simp add: load_all_data_cross_file empty)
  have same: "main (inp\<lparr>cross_posters_json := f\<rparr>) now =
           map_sum id without_cross_posters (main (inp\<lparr>cross_posters_json := c\<rparr>) now)"
    using empty by (rule main_cross_file_empty)
  have "top_cross_posters (network doc) = [] \<and> au_cross_posting_rate (authors (insights doc)) = 0"
    if "main (inp\<lparr>cross_posters_json := f\<rparr>) now = Inr doc" for doc
  proof -
    from that same obtain doc' where "doc = without_cross_posters doc'"
      by (cases "main (inp\<lparr>cross_posters_json := c\<rparr>) now") auto
    then show ?thesis by (simp add: without_cross_posters_def)
  qed
  with loaded same show ?thesis by blast
qed


theorem missing_cross_posters_file_witness:
  "map_sum id (\<lambda>doc. (top_cross_posters (network doc),
                       au_cross_posting_rate (authors (insights doc))))
     (main (sample_inputs\<lparr>cross_posters_json := Absent\<rparr>) sample_now) = Inr ([], 0)"
proof -
  have "\<not> isl (main (sample_inputs\<lparr>cross_posters_json := Absent\<rparr>) sample_now)"
    by code_simp
  then obtain doc where
    run: "main (sample_inputs\<lparr>cross_posters_json := Absent\<rparr>) sample_now = Inr doc"
    by (cases "main (sample_inputs\<lparr>cross_posters_json := Absent\<rparr>) sample_now") auto
  have "Absent = Absent \<or> Absent = Unreadable \<or> Absent = Malformed"
    by simp
  from missing_cross_posters_file [OF this, of sample_inputs sample_now "cross_posters_json sample_inputs"] run
  have "top_cross_posters (network doc) = [] \<and> au_cross_posting_rate (authors (insights doc)) = 0"
    by blast
  with run show ?thesis by simp
qed

subsection \<open>C9: two runs on the same inputs\<close>

text \<open>
  Claim C9: two runs of the pipeline on the same input files give byte-identical output
  except for \<open>generated_at\<close>.

  This theory does not state the claim. \<open>main\<close> is a HOL function of the files read and
  the clock, so it gives equal results on equal arguments whatever the program does: a
  statement about two of its results holds of every pipeline that stamps the clock, and
  shows nothing about this one. What could make two runs of the program differ (the
  order a hash table or a sort gives to equal keys, the digits Python writes for a
  float) lies beneath the model, which computes with exact rationals and returns the
  document, not the bytes of the file. The model only records where the clock enters:
  the field \<open>generated_at\<close> (\<open>generated_at_is_clock\<close>).
\<close>

subsection \<open>C10: a posts table with no row\<close>

text \<open>
  Claim C10, as stated: with a posts table of zero rows the pipeline raises in the
  insights aggregator, at the argmax of the empty per-hour series.

  The aggregators run in the order of \<open>main\<close>'s dict display, and the top-posts
  aggregator comes before the insights aggregator: on a table without rows the upvotes
  column is not numeric and \<open>nlargest\<close> raises TypeError, which ends the run.
\<close>

theorem no_posts_raises_in_top_posts:
  "main no_posts_inputs sample_now = Inl TypeError_nlargest \<and>
   main no_posts_inputs sample_now \<noteq> Inl ValueError_argmax_empty"
  by (intro conjI; code_simp)

text \<open>
  Claim C10, amended: when both tables load and the posts table has zero rows, the
  pipeline raises before serialization, so no output file is written: the top-posts
  aggregator raises the TypeError of \<open>nlargest\<close>. The insights aggregator, which is not
  reached, raises on such a table as well, at the argmax of the empty per-hour series.
\<close>

theorem empty_posts_table_raises:
  assumes "posts_latest_csv inp = Content []" and "author_stats_csv inp = Content rows"
  shows "main inp now = Inl TypeError_nlargest \<and>
     (\<exists>d. load_all_data inp = Inr d \<and> posts d = [] \<and>
          export_top_posts d 20 = Inl TypeError_nlargest \<and>
          export_insights d = Inl ValueError_argmax_empty)"
  using assms
  by (simp add: main_def load_all_data_def read_csv_def export_top_posts_def nlargest_def
      numeric_dtype_def export_insights_def Let_def idxmax_def mean_upvotes_by_def groupby_def
      dropna_def List.map_filter_simps)


theorem empty_posts_table_raises_witness:
  "posts_latest_csv no_posts_inputs = Content [] \<and>
   main no_posts_inputs sample_now = Inl TypeError_nlargest"
proof -
  have p: "posts_latest_csv no_posts_inputs = Content []"
    by (simp add: no_posts_inputs_def)
  have a: "author_stats_csv no_posts_inputs = Content [sample_author]"
    by (simp add: no_posts_inputs_def sample_inputs_def)
  from empty_posts_table_raises [OF p a, of sample_now] p show ?thesis
    by blast
qed

end
